theory Spec2Isabelle
  imports Main
begin

section \<open>Resolution and validation of the Node.js binary\<close>

text \<open>
  A shallow embedding of \<^verbatim>\<open>NodeBinary\<close> and \<^verbatim>\<open>NodeBinaryProvider\<close>
  (the binary-provider source file). JavaScript numbers that carry a major version are
  modelled as \<^typ>\<open>int\<close>, \<^verbatim>\<open>number | undefined\<close> as \<^typ>\<open>int option\<close>;
  \<^verbatim>\<open>NaN\<close>, infinities and fractions are outside the model, and a digit string is
  read exactly (a double does so up to \<open>2^53\<close>). Strings are \<^typ>\<open>string\<close>.
  Exceptions are values: a call returns \<open>Inl\<close> of the value it throws
  or \<open>Inr\<close> of its result. The provider's mutable map is threaded through every call.
\<close>

subsection \<open>Errors\<close>

text \<open>
  \<^verbatim>\<open>dap/errors\<close> is imported by the source; of it the code uses the two factories
  \<^verbatim>\<open>cannotFindNodeBinary(path)\<close> and \<^verbatim>\<open>nodeBinaryOutOfDate(version, path)\<close> and
  the code \<^verbatim>\<open>ErrorCodes.NodeBinaryOutOfDate\<close> it compares \<^verbatim>\<open>cause.id\<close> with.
  A thrown value is either \<^verbatim>\<open>new ProtocolError(f(...))\<close> for one of the two
  factories \<open>f\<close>, written as the factory with its arguments, or an error that the engine
  itself throws: \<^verbatim>\<open>RangeError\<close> when the call stack is exhausted,
  \<^verbatim>\<open>TypeError\<close> when a property of \<^verbatim>\<open>undefined\<close> is read.
\<close>

datatype ErrorCodes = CannotFindNodeBinary | NodeBinaryOutOfDate

datatype Thrown =
    cannotFindNodeBinary string
  | nodeBinaryOutOfDate string string
  | RangeError
  | TypeError

text \<open>
  \<^verbatim>\<open>e.cause.id\<close>. A \<^verbatim>\<open>ProtocolError\<close> has the \<^verbatim>\<open>cause\<close> its factory
  built; the engine's errors have none, and \<open>None\<close> stands for \<^verbatim>\<open>e.cause\<close> being
  \<^verbatim>\<open>undefined\<close>, where reading \<^verbatim>\<open>.id\<close> throws \<^verbatim>\<open>TypeError\<close>.
\<close>

fun cause_id :: "Thrown \<Rightarrow> ErrorCodes option" where
  "cause_id (cannotFindNodeBinary p) = Some CannotFindNodeBinary"
| "cause_id (nodeBinaryOutOfDate v p) = Some NodeBinaryOutOfDate"
| "cause_id RangeError = None"
| "cause_id TypeError = None"

subsection \<open>The descriptor\<close>

record NodeBinary =
  path :: string
  majorVersion :: "int option"

text \<open>
  JavaScript truthiness of a \<^verbatim>\<open>number | undefined\<close>: \<^verbatim>\<open>undefined\<close> and \<open>0\<close>
  are falsy, every other integer is truthy.
\<close>

fun truthy :: "int option \<Rightarrow> bool" where
  "truthy None = False"
| "truthy (Some v) = (v \<noteq> 0)"

text \<open>\<^verbatim>\<open>return this.majorVersion ? this.majorVersion >= 12 : true;\<close>\<close>

definition canUseSpacesInRequirePath :: "NodeBinary \<Rightarrow> bool" where
  "canUseSpacesInRequirePath b =
     (if truthy (majorVersion b)
      then (case majorVersion b of Some v \<Rightarrow> 12 \<le> v | None \<Rightarrow> False)
      else True)"

subsection \<open>Collaborators\<close>

text \<open>
  \<^verbatim>\<open>isAbsolute\<close> and \<^verbatim>\<open>basename\<close> (Node's \<^verbatim>\<open>path\<close> module),
  \<^verbatim>\<open>findInPath\<close> (\<^verbatim>\<open>common/pathUtils\<close>) and \<^verbatim>\<open>spawnAsync\<close>
  (\<^verbatim>\<open>common/processUtils\<close>) are not part of the source file; they are parameters of
  the model. \<^verbatim>\<open>findInPath\<close> returns \<open>None\<close> for \<^verbatim>\<open>undefined\<close>;
  \<^verbatim>\<open>spawnAsync\<close> returns the captured standard output, or \<open>None\<close> when the
  promise rejects. The record is the machine as it is at the time of one call: two calls
  may see different machines. The four are taken to return or reject as described, so the
  only exceptions in the model are the \<^verbatim>\<open>ProtocolError\<close>s the source file builds
  and the two errors of the engine.
\<close>

type_synonym EnvironmentVars = "string \<rightharpoonup> string"

record Host =
  isAbsolute :: "string \<Rightarrow> bool"
  basename :: "string \<Rightarrow> string"
  findInPath :: "string \<Rightarrow> EnvironmentVars \<Rightarrow> string option"
  spawnAsync :: "string \<Rightarrow> string list \<Rightarrow> string option"

text \<open>
  The provider: its \<^verbatim>\<open>knownGoodMappings\<close>, and the subprocess invocations it has
  made so far, oldest first (the effect a probe-call counter observes).
\<close>

record NodeBinaryProvider =
  knownGoodMappings :: "string \<rightharpoonup> NodeBinary"
  spawned :: "(string \<times> string list) list"

subsection \<open>Strings and regular expressions\<close>

definition isDigit :: "char \<Rightarrow> bool" where
  "isDigit c = (c \<in> set ''0123456789'')"

text \<open>\<^verbatim>\<open>Number(ds)\<close> on a string of decimal digits.\<close>

definition Number :: "string \<Rightarrow> int" where
  "Number ds = foldl (\<lambda>a c. 10 * a + (int (of_char c) - 48)) 0 ds"

text \<open>
  \<^verbatim>\<open>String.prototype.trim\<close>, on the ASCII white space and line terminators
  (tab, line feed, vertical tab, form feed, carriage return, space).
\<close>

definition isWhiteSpace :: "char \<Rightarrow> bool" where
  "isWhiteSpace c = (of_char c \<in> {9, 10, 11, 12, 13, 32 :: nat})"

definition trim :: "string \<Rightarrow> string" where
  "trim s = rev (dropWhile isWhiteSpace (rev (dropWhile isWhiteSpace s)))"

text \<open>
  \<^verbatim>\<open>/^node(64)?(\.exe)?$/.test(b)\<close>. Without the \<^verbatim>\<open>m\<close> flag the anchors are
  the two ends of the string.
\<close>

definition looksLikeNode :: "string \<Rightarrow> bool" where
  "looksLikeNode b =
     (\<exists>mid \<in> set [[], ''64'']. \<exists>ext \<in> set [[], ''.exe'']. b = ''node'' @ mid @ ext)"

text \<open>
  \<^verbatim>\<open>/^v([0-9]+)\./.exec(version)\<close>: \<open>None\<close> for \<^verbatim>\<open>null\<close>, otherwise the first
  capture group. The group is greedy and what follows it must be a dot, which is no digit, so
  the group is the longest run of digits after the \<^verbatim>\<open>v\<close>.
\<close>

definition exec_version :: "string \<Rightarrow> string option" where
  "exec_version version =
     (case version of
        [] \<Rightarrow> None
      | c # rest \<Rightarrow>
          if c \<noteq> CHR ''v'' then None
          else (let ds = takeWhile isDigit rest; after = dropWhile isDigit rest
                in if ds \<noteq> [] \<and> take 1 after = ''.'' then Some ds else None))"

subsection \<open>The provider\<close>

text \<open>
  \<^verbatim>\<open>getVersionText(binary)\<close>: spawn \<^verbatim>\<open>binary --version\<close>; any rejection
  becomes \<^verbatim>\<open>cannotFindNodeBinary(binary)\<close>.
\<close>

definition getVersionText ::
  "Host \<Rightarrow> NodeBinaryProvider \<Rightarrow> string \<Rightarrow> (Thrown + string) \<times> NodeBinaryProvider" where
  "getVersionText os s binary =
     (let s' = s\<lparr>spawned := spawned s @ [(binary, [''--version''])]\<rparr>
      in case spawnAsync os binary [''--version''] of
           Some stdout \<Rightarrow> (Inr stdout, s')
         | None \<Rightarrow> (Inl (cannotFindNodeBinary binary), s'))"

text \<open>
  The first statement of \<^verbatim>\<open>resolveAndValidate\<close>:
  \<^verbatim>\<open>executable && isAbsolute(executable) ? executable : findInPath(executable, env.value)\<close>,
  and \<^verbatim>\<open>!location\<close>, which holds of \<^verbatim>\<open>undefined\<close> and of the empty string.
\<close>

definition locate :: "Host \<Rightarrow> EnvironmentVars \<Rightarrow> string \<Rightarrow> string option" where
  "locate os env executable =
     (let location = (if executable \<noteq> [] \<and> isAbsolute os executable then Some executable
                      else findInPath os executable env)
      in if location = None \<or> location = Some [] then None else location)"

text \<open>
  The straight-line tail of \<^verbatim>\<open>resolveAndValidate\<close>, from the cache lookup to the
  cache store: what runs once the located path has passed the shape check.
\<close>

definition validate ::
  "Host \<Rightarrow> NodeBinaryProvider \<Rightarrow> string \<Rightarrow> (Thrown + NodeBinary) \<times> NodeBinaryProvider" where
  "validate os s location =
     (case knownGoodMappings s location of
        Some knownGood \<Rightarrow> (Inr knownGood, s)
      | None \<Rightarrow>
          (case getVersionText os s location of
             (Inl e, s') \<Rightarrow> (Inl e, s')
           | (Inr version, s') \<Rightarrow>
               (case exec_version version of
                  None \<Rightarrow> (Inl (nodeBinaryOutOfDate (trim version) location), s')
                | Some m \<Rightarrow>
                    if Number m < 8
                    then (Inl (nodeBinaryOutOfDate (trim version) location), s')
                    else (let entry = \<lparr>path = location, majorVersion = Some (Number m)\<rparr>
                          in (Inr entry,
                              s'\<lparr>knownGoodMappings := (knownGoodMappings s')(location \<mapsto> entry)\<rparr>)))))"

text \<open>
  The \<^verbatim>\<open>try\<close>/\<^verbatim>\<open>catch\<close> of the fallback, as a function of what happened
  inside the \<^verbatim>\<open>try\<close>: on success the located path with the inner call's
  \<^verbatim>\<open>majorVersion\<close>. The \<^verbatim>\<open>catch\<close> receives whatever was thrown and reads
  \<^verbatim>\<open>(e as ProtocolError).cause.id\<close>, a cast that checks nothing: when \<open>e\<close> has no
  \<^verbatim>\<open>cause\<close> that read throws \<^verbatim>\<open>TypeError\<close> out of the \<^verbatim>\<open>catch\<close>;
  an error whose \<^verbatim>\<open>cause.id\<close> is \<^verbatim>\<open>NodeBinaryOutOfDate\<close> is thrown again;
  an error with any other \<^verbatim>\<open>cause.id\<close> gives the located path with no version.
\<close>

definition fallback :: "string \<Rightarrow> Thrown + NodeBinary \<Rightarrow> Thrown + NodeBinary" where
  "fallback location r =
     (case r of
        Inr realBinary \<Rightarrow> Inr \<lparr>path = location, majorVersion = majorVersion realBinary\<rparr>
      | Inl e \<Rightarrow>
          (case cause_id e of
             None \<Rightarrow> Inl TypeError
           | Some i \<Rightarrow>
               if i = NodeBinaryOutOfDate then Inl e
               else Inr \<lparr>path = location, majorVersion = None\<rparr>))"

text \<open>
  \<^verbatim>\<open>resolveAndValidate(env, executable, explicitVersion)\<close>. The method calls itself,
  and nothing in it bounds the depth of that recursion, so the model is a partial function:
  \<open>None\<close> is a call that never returns. (The default value \<^verbatim>\<open>'node'\<close> of
  \<^verbatim>\<open>executable\<close> is the caller passing \<open>''node''\<close>.) This is the method as
  the language defines it, with no bound on the depth of calls; \<open>resolveAndValidateWithin\<close>
  below is the method on an engine, whose call stack is finite.
\<close>

partial_function (option) resolveAndValidate ::
  "Host \<Rightarrow> NodeBinaryProvider \<Rightarrow> EnvironmentVars \<Rightarrow> string \<Rightarrow> int option
     \<Rightarrow> ((Thrown + NodeBinary) \<times> NodeBinaryProvider) option" where
  "resolveAndValidate os s env executable explicitVersion =
     (case locate os env executable of
        None \<Rightarrow> Some (Inl (cannotFindNodeBinary executable), s)
      | Some location \<Rightarrow>
          if truthy explicitVersion
          then Some (Inr \<lparr>path = location, majorVersion = explicitVersion\<rparr>, s)
          else if \<not> looksLikeNode (basename os location)
          then Option.bind (resolveAndValidate os s env ''node'' None)
                 (\<lambda>(r, s'). Some (fallback location r, s'))
          else Some (validate os s location))"

subsection \<open>The method on a finite call stack\<close>

text \<open>
  The method is \<^verbatim>\<open>async\<close>, but nothing is awaited before it calls itself: the
  nested calls are nested frames of one call stack. An engine gives that stack a bound and
  throws \<^verbatim>\<open>RangeError\<close> from a call that would exceed it.
  \<open>resolveAndValidateWithin n\<close> is the method when the stack has room for \<open>n\<close> more
  nested calls of it: with no room left the call inside the \<^verbatim>\<open>try\<close> throws
  \<^verbatim>\<open>RangeError\<close>, which the \<^verbatim>\<open>catch\<close> receives. Everything else is as in
  \<open>resolveAndValidate\<close>. Every call returns here, so there is no \<open>option\<close>.
\<close>

fun resolveAndValidateWithin ::
  "nat \<Rightarrow> Host \<Rightarrow> NodeBinaryProvider \<Rightarrow> EnvironmentVars \<Rightarrow> string \<Rightarrow> int option
     \<Rightarrow> (Thrown + NodeBinary) \<times> NodeBinaryProvider" where
  "resolveAndValidateWithin n os s env executable explicitVersion =
     (case locate os env executable of
        None \<Rightarrow> (Inl (cannotFindNodeBinary executable), s)
      | Some location \<Rightarrow>
          if truthy explicitVersion
          then (Inr \<lparr>path = location, majorVersion = explicitVersion\<rparr>, s)
          else if \<not> looksLikeNode (basename os location)
          then (case n of
                  0 \<Rightarrow> (fallback location (Inl RangeError), s)
                | Suc m \<Rightarrow>
                    (case resolveAndValidateWithin m os s env ''node'' None of
                       (r, s') \<Rightarrow> (fallback location r, s')))
          else validate os s location)"

declare resolveAndValidateWithin.simps [simp del]

subsection \<open>The canonical-name call without recursion\<close>

text \<open>
  What the inner call \<^verbatim>\<open>resolveAndValidate(env, 'node')\<close> comes to: it returns when
  \<open>''node''\<close> is not found, or is found at a path that passes the shape check; it does
  not return when \<open>''node''\<close> is found at a path that fails the shape check, for then
  it makes the same call again. Lemma \<open>resolveAndValidate_node\<close> below proves the equality.
\<close>

definition resolveCanonical ::
  "Host \<Rightarrow> NodeBinaryProvider \<Rightarrow> EnvironmentVars
     \<Rightarrow> ((Thrown + NodeBinary) \<times> NodeBinaryProvider) option" where
  "resolveCanonical os s env =
     (case locate os env ''node'' of
        None \<Rightarrow> Some (Inl (cannotFindNodeBinary ''node''), s)
      | Some location \<Rightarrow>
          if looksLikeNode (basename os location) then Some (validate os s location) else None)"

subsection \<open>The specification's wording\<close>

text \<open>
  ``The leading \<^verbatim>\<open>v<digits>.\<close> pattern'': the text starts with \<^verbatim>\<open>v\<close>, a
  non-empty run \<open>ds\<close> of decimal digits, and a dot.
\<close>

definition leadingVersionPattern :: "string \<Rightarrow> string \<Rightarrow> bool" where
  "leadingVersionPattern version ds =
     (ds \<noteq> [] \<and> list_all isDigit ds \<and> take (length ds + 2) version = ''v'' @ ds @ ''.'')"

text \<open>
  ``\<^verbatim>\<open>supportsSpacesInRequirePath\<close> = true when \<^verbatim>\<open>majorVersion\<close> is absent OR
  \<^verbatim>\<open>majorVersion >= 12\<close>''.
\<close>

definition supportsSpacesInRequirePath :: "NodeBinary \<Rightarrow> bool" where
  "supportsSpacesInRequirePath b = (case majorVersion b of None \<Rightarrow> True | Some v \<Rightarrow> 12 \<le> v)"

subsection \<open>Concrete machines\<close>

text \<open>
  Node's \<^verbatim>\<open>path.posix\<close> and \<^verbatim>\<open>path.win32\<close> versions of \<^verbatim>\<open>isAbsolute\<close>
  and \<^verbatim>\<open>basename\<close> (one argument), for the examples. On POSIX the separator is the
  slash; on Windows both slashes separate, and a leading drive letter with its colon is
  not part of the base name.
\<close>

definition posix_isAbsolute :: "string \<Rightarrow> bool" where
  "posix_isAbsolute p = (take 1 p = ''/'')"

definition posix_basename :: "string \<Rightarrow> string" where
  "posix_basename p =
     rev (takeWhile (\<lambda>c. c \<noteq> CHR ''/'') (dropWhile (\<lambda>c. c = CHR ''/'') (rev p)))"

definition backslash :: char where
  "backslash = CHR 0x5C"

definition isPathSeparator :: "char \<Rightarrow> bool" where
  "isPathSeparator c = (c = CHR ''/'' \<or> c = backslash)"

definition isWindowsDeviceRoot :: "char \<Rightarrow> bool" where
  "isWindowsDeviceRoot c =
     (c \<in> set ''ABCDEFGHIJKLMNOPQRSTUVWXYZ'' \<or> c \<in> set ''abcdefghijklmnopqrstuvwxyz'')"

definition win32_isAbsolute :: "string \<Rightarrow> bool" where
  "win32_isAbsolute p =
     (case p of
        [] \<Rightarrow> False
      | c # rest \<Rightarrow>
          isPathSeparator c \<or>
          (isWindowsDeviceRoot c \<and> take 1 rest = '':'' \<and>
           (case drop 1 rest of [] \<Rightarrow> False | d # _ \<Rightarrow> isPathSeparator d)))"

definition win32_basename :: "string \<Rightarrow> string" where
  "win32_basename p =
     (let q = (case p of
                 c # d # rest \<Rightarrow> if isWindowsDeviceRoot c \<and> d = CHR '':'' then rest else p
               | _ \<Rightarrow> p)
      in rev (takeWhile (\<lambda>c. \<not> isPathSeparator c) (dropWhile isPathSeparator (rev q))))"

text \<open>
  A machine given by what is on the search path (executable name to location) and what
  each binary prints for \<^verbatim>\<open>--version\<close> (a binary with no entry cannot be spawned).
\<close>

definition posixHost :: "(string \<rightharpoonup> string) \<Rightarrow> (string \<rightharpoonup> string) \<Rightarrow> Host" where
  "posixHost onPath versions =
     \<lparr>isAbsolute = posix_isAbsolute, basename = posix_basename,
      findInPath = (\<lambda>name env. onPath name),
      spawnAsync = (\<lambda>binary args. if args = [''--version''] then versions binary else None)\<rparr>"

definition win32Host :: "(string \<rightharpoonup> string) \<Rightarrow> (string \<rightharpoonup> string) \<Rightarrow> Host" where
  "win32Host onPath versions =
     \<lparr>isAbsolute = win32_isAbsolute, basename = win32_basename,
      findInPath = (\<lambda>name env. onPath name),
      spawnAsync = (\<lambda>binary args. if args = [''--version''] then versions binary else None)\<rparr>"

text \<open>A provider as its constructor leaves it: nothing cached, nothing spawned.\<close>

definition newProvider :: NodeBinaryProvider where
  "newProvider = \<lparr>knownGoodMappings = Map.empty, spawned = []\<rparr>"

text \<open>
  A version manager's shim \<^verbatim>\<open>nvm-node\<close> and the real binary, both on the search path;
  a machine with a package manager and no \<^verbatim>\<open>node\<close>; and a Windows machine where the
  search for \<^verbatim>\<open>node\<close> finds a command script \<^verbatim>\<open>node.cmd\<close>.
\<close>

definition shimPath :: "string \<rightharpoonup> string" where
  "shimPath = [''nvm-node'' \<mapsto> ''/home/dev/.nvm/nvm-node'', ''node'' \<mapsto> ''/usr/bin/node'']"

definition npmOnlyPath :: "string \<rightharpoonup> string" where
  "npmOnlyPath = [''npm'' \<mapsto> ''/usr/bin/npm'']"

definition nodeCmd :: string where
  "nodeCmd = ''C:'' @ [backslash] @ ''nodejs'' @ [backslash] @ ''node.cmd''"

definition cmdPath :: "string \<rightharpoonup> string" where
  "cmdPath = [''node'' \<mapsto> nodeCmd]"

text \<open>
  The same Windows machine with a package manager beside it: the search for \<^verbatim>\<open>npm\<close>
  finds the command script \<^verbatim>\<open>npm.cmd\<close>.
\<close>

definition npmCmd :: string where
  "npmCmd = ''C:'' @ [backslash] @ ''nodejs'' @ [backslash] @ ''npm.cmd''"

definition npmCmdPath :: "string \<rightharpoonup> string" where
  "npmCmdPath = [''npm'' \<mapsto> npmCmd, ''node'' \<mapsto> nodeCmd]"

text \<open>
  What \<^verbatim>\<open>/usr/bin/node --version\<close> prints on a machine where only that binary can be
  spawned; the provider after one probe of it that stored nothing; and the provider after
  one probe of it that stored major version \<open>n\<close>.
\<close>

definition nodeReports :: "string \<Rightarrow> (string \<rightharpoonup> string)" where
  "nodeReports out = [''/usr/bin/node'' \<mapsto> out]"

definition afterProbe :: NodeBinaryProvider where
  "afterProbe = \<lparr>knownGoodMappings = Map.empty, spawned = [(''/usr/bin/node'', [''--version''])]\<rparr>"

definition cached :: "int \<Rightarrow> NodeBinaryProvider" where
  "cached n =
     \<lparr>knownGoodMappings = [''/usr/bin/node'' \<mapsto> \<lparr>path = ''/usr/bin/node'', majorVersion = Some n\<rparr>],
      spawned = [(''/usr/bin/node'', [''--version''])]\<rparr>"


section \<open>Lemmas\<close>

subsection \<open>The version pattern\<close>

lemma takeWhile_digits:
  "list_all isDigit ds \<Longrightarrow> \<not> isDigit c \<Longrightarrow> takeWhile isDigit (ds @ c # r) = ds"
  by (induction ds) auto

lemma dropWhile_digits:
  "list_all isDigit ds \<Longrightarrow> \<not> isDigit c \<Longrightarrow> dropWhile isDigit (ds @ c # r) = c # r"
  by (induction ds) auto

lemma dot_no_digit: "\<not> isDigit CHR ''.''"
  by (simp add: isDigit_def)

lemma pattern_exec:
  assumes "leadingVersionPattern version ds"
  shows "exec_version version = Some ds"
proof -
  from assms have ne: "ds \<noteq> []" and dg: "list_all isDigit ds"
    and tk: "take (length ds + 2) version = ''v'' @ ds @ ''.''"
    by (simp_all add: leadingVersionPattern_def)
  have "version = take (length ds + 2) version @ drop (length ds + 2) version"
    by simp
  with tk have v: "version = CHR ''v'' # (ds @ CHR ''.'' # drop (length ds + 2) version)"
    by simp
  show ?thesis
    by (subst v) (simp add: exec_version_def takeWhile_digits dropWhile_digits dot_no_digit dg ne)
qed

lemma exec_pattern:
  assumes "exec_version version = Some ds"
  shows "leadingVersionPattern version ds"
proof -
  from assms obtain rest where v: "version = CHR ''v'' # rest"
    by (cases version) (auto simp: exec_version_def split: if_splits)
  from assms v have ds: "ds = takeWhile isDigit rest" and ne: "ds \<noteq> []"
    and dot: "take 1 (dropWhile isDigit rest) = ''.''"
    by (auto simp: exec_version_def Let_def split: if_splits)
  from dot obtain r where dr: "dropWhile isDigit rest = CHR ''.'' # r"
    by (cases "dropWhile isDigit rest") auto
  have "rest = takeWhile isDigit rest @ dropWhile isDigit rest"
    by simp
  with ds dr have rest: "rest = ds @ CHR ''.'' # r" by simp
  have dg: "list_all isDigit ds"
    unfolding ds list_all_iff by (auto dest: set_takeWhileD)
  have "take (length ds + 2) version = ''v'' @ ds @ ''.''"
    by (subst v, subst rest) simp
  with ne dg show ?thesis by (simp add: leadingVersionPattern_def)
qed

lemma exec_version_iff: "exec_version version = Some ds \<longleftrightarrow> leadingVersionPattern version ds"
  using pattern_exec exec_pattern by blast

subsection \<open>What one validation does\<close>

lemma validate_failure:
  assumes "validate os s location = (Inl e, s')"
  shows "knownGoodMappings s' = knownGoodMappings s \<and> knownGoodMappings s location = None \<and>
         spawned s' = spawned s @ [(location, [''--version''])]"
  using assms
  by (auto simp: validate_def getVersionText_def Let_def split: option.splits if_splits)

lemma validate_success:
  assumes "validate os s location = (Inr nb, s')"
  shows "(knownGoodMappings s location = Some nb \<and> s' = s) \<or>
         (knownGoodMappings s location = None \<and>
          (\<exists>version ds. spawnAsync os location [''--version''] = Some version \<and>
             exec_version version = Some ds \<and> 8 \<le> Number ds \<and>
             nb = \<lparr>path = location, majorVersion = Some (Number ds)\<rparr>) \<and>
          s' = s\<lparr>spawned := spawned s @ [(location, [''--version''])],
                 knownGoodMappings := (knownGoodMappings s)(location \<mapsto> nb)\<rparr>)"
  using assms
  by (auto simp: validate_def getVersionText_def Let_def split: option.splits if_splits)

lemma validate_known:
  "knownGoodMappings s location = Some nb \<Longrightarrow> validate os s location = (Inr nb, s)"
  by (simp add: validate_def)

lemma validate_probe_ok:
  assumes "knownGoodMappings s location = None"
    "spawnAsync os location [''--version''] = Some version"
    "exec_version version = Some ds" "8 \<le> Number ds"
  shows "validate os s location =
           (Inr \<lparr>path = location, majorVersion = Some (Number ds)\<rparr>,
            s\<lparr>spawned := spawned s @ [(location, [''--version''])],
              knownGoodMappings := (knownGoodMappings s)
                (location \<mapsto> \<lparr>path = location, majorVersion = Some (Number ds)\<rparr>)\<rparr>)"
  using assms by (simp add: validate_def getVersionText_def Let_def)

lemma validate_miss_spawns:
  assumes "knownGoodMappings s location = None"
  shows "spawned (snd (validate os s location)) = spawned s @ [(location, [''--version''])]"
  using assms
  by (simp add: validate_def getVersionText_def Let_def split: option.split)

subsection \<open>Unfolding the recursion\<close>

lemma node_not_returning_aux:
  "resolveAndValidate os s env exe ev = Some y \<Longrightarrow>
     \<not> (exe = ''node'' \<and> ev = None \<and>
        (\<exists>location. locate os env ''node'' = Some location \<and> \<not> looksLikeNode (basename os location)))"
proof (induction os s env exe ev y rule: resolveAndValidate.raw_induct [rotated 1, consumes 1])
  case (1 self os s env exe ev y)
  show ?case
  proof
    assume bad: "exe = ''node'' \<and> ev = None \<and>
        (\<exists>location. locate os env ''node'' = Some location \<and> \<not> looksLikeNode (basename os location))"
    then obtain location where loc: "locate os env ''node'' = Some location"
      and shape: "\<not> looksLikeNode (basename os location)" by blast
    from 1(2) bad loc shape obtain y' where "self os s env ''node'' None = Some y'"
      by (auto simp: Option.bind_eq_Some_conv)
    from 1(1) [OF this] bad show False by simp
  qed
qed

lemma node_not_returning:
  assumes "locate os env ''node'' = Some location" "\<not> looksLikeNode (basename os location)"
  shows "resolveAndValidate os s env ''node'' None = None"
proof (cases "resolveAndValidate os s env ''node'' None")
  case None
  then show ?thesis .
next
  case (Some y)
  from node_not_returning_aux [OF Some] assms show ?thesis by blast
qed

lemma resolveAndValidate_node:
  "resolveAndValidate os s env ''node'' None = resolveCanonical os s env"
proof (cases "locate os env ''node''")
  case None
  then show ?thesis
    by (subst resolveAndValidate.simps) (simp add: resolveCanonical_def)
next
  case (Some location)
  show ?thesis
  proof (cases "looksLikeNode (basename os location)")
    case True
    with Some show ?thesis
      by (subst resolveAndValidate.simps) (simp add: resolveCanonical_def)
  next
    case False
    with Some show ?thesis
      by (simp add: node_not_returning resolveCanonical_def)
  qed
qed

lemma resolveAndValidate_unfold:
  "resolveAndValidate os s env exe ev =
     (case locate os env exe of
        None \<Rightarrow> Some (Inl (cannotFindNodeBinary exe), s)
      | Some location \<Rightarrow>
          if truthy ev
          then Some (Inr \<lparr>path = location, majorVersion = ev\<rparr>, s)
          else if \<not> looksLikeNode (basename os location)
          then Option.bind (resolveCanonical os s env)
                 (\<lambda>(r, s'). Some (fallback location r, s'))
          else Some (validate os s location))"
  by (subst resolveAndValidate.simps) (simp add: resolveAndValidate_node split: option.split)

lemma resolve_validate:
  assumes "locate os env exe = Some location" "\<not> truthy ev"
    "looksLikeNode (basename os location)"
  shows "resolveAndValidate os s env exe ev = Some (validate os s location)"
  using assms by (simp add: resolveAndValidate_unfold)

lemma resolve_fallback:
  assumes "locate os env exe = Some location" "\<not> truthy ev"
    "\<not> looksLikeNode (basename os location)"
  shows "resolveAndValidate os s env exe ev =
     Option.bind (resolveAndValidate os s env ''node'' None)
                 (\<lambda>(r, s'). Some (fallback location r, s'))"
  using assms by (subst resolveAndValidate.simps) simp

text \<open>Every call that returns has made at most one validation, of a path that passes the shape check.\<close>

lemma resolve_state:
  assumes "resolveAndValidate os s env exe ev = Some (r, s')"
  shows "s' = s \<or> (\<exists>q r1. looksLikeNode (basename os q) \<and> validate os s q = (r1, s') \<and>
            (r = r1 \<or> (\<exists>location. \<not> looksLikeNode (basename os location) \<and> r = fallback location r1)))"
proof (cases "locate os env exe")
  case None
  with assms show ?thesis by (simp add: resolveAndValidate_unfold)
next
  case (Some location)
  show ?thesis
  proof (cases "truthy ev")
    case True
    with assms Some show ?thesis by (simp add: resolveAndValidate_unfold)
  next
    case False
    show ?thesis
    proof (cases "looksLikeNode (basename os location)")
      case True
      with assms Some False show ?thesis by (auto simp: resolveAndValidate_unfold)
    next
      case shim: False
      with assms Some False obtain r1 where c: "resolveCanonical os s env = Some (r1, s')"
        and r: "r = fallback location r1"
        by (auto simp: resolveAndValidate_unfold Option.bind_eq_Some_conv)
      show ?thesis
      proof (cases "locate os env ''node''")
        case None
        with c show ?thesis by (simp add: resolveCanonical_def)
      next
        case (Some q)
        with c have "looksLikeNode (basename os q) \<and> validate os s q = (r1, s')"
          by (auto simp: resolveCanonical_def split: if_splits)
        with r shim show ?thesis by blast
      qed
    qed
  qed
qed

lemma failure_keeps_cache:
  assumes "resolveAndValidate os s env exe ev = Some (Inl e, s')"
  shows "knownGoodMappings s' = knownGoodMappings s"
proof -
  from resolve_state [OF assms] show ?thesis
  proof
    assume "s' = s" then show ?thesis by simp
  next
    assume "\<exists>q r1. looksLikeNode (basename os q) \<and> validate os s q = (r1, s') \<and>
            (Inl e = r1 \<or> (\<exists>location. \<not> looksLikeNode (basename os location) \<and> Inl e = fallback location r1))"
    then obtain q r1 where v: "validate os s q = (r1, s')"
      and r: "Inl e = r1 \<or> (\<exists>location. Inl e = fallback location r1)" by blast
    from r obtain e' where "r1 = Inl e'"
      by (cases r1) (auto simp: fallback_def split: if_splits)
    with v show ?thesis by (simp add: validate_failure)
  qed
qed


lemma cache_step:
  assumes "resolveAndValidate os s env exe ev = Some (r, s')"
  shows "knownGoodMappings s' = knownGoodMappings s \<or>
         (\<exists>q version ds. looksLikeNode (basename os q) \<and> knownGoodMappings s q = None \<and>
            spawnAsync os q [''--version''] = Some version \<and>
            exec_version version = Some ds \<and> 8 \<le> Number ds \<and>
            knownGoodMappings s' =
              (knownGoodMappings s)(q \<mapsto> \<lparr>path = q, majorVersion = Some (Number ds)\<rparr>))"
proof -
  from resolve_state [OF assms] show ?thesis
  proof
    assume "s' = s" then show ?thesis by simp
  next
    assume "\<exists>q r1. looksLikeNode (basename os q) \<and> validate os s q = (r1, s') \<and>
            (r = r1 \<or> (\<exists>location. \<not> looksLikeNode (basename os location) \<and> r = fallback location r1))"
    then obtain q r1 where q: "looksLikeNode (basename os q)"
      and v: "validate os s q = (r1, s')" by blast
    show ?thesis
    proof (cases r1)
      case (Inl e)
      with v show ?thesis by (simp add: validate_failure)
    next
      case (Inr nb)
      with v validate_success [of os s q nb s'] q show ?thesis by auto
    qed
  qed
qed

text \<open>
  A descriptor that a call returns has no major version \<open>0\<close>, unless the cache held one.
\<close>

lemma resolved_majorVersion_nonzero:
  assumes call: "resolveAndValidate os s env exe ev = Some (Inr nb, s')"
    and cache: "\<And>p b. knownGoodMappings s p = Some b \<Longrightarrow> majorVersion b \<noteq> Some 0"
  shows "majorVersion nb \<noteq> Some 0"
proof -
  have validated: "majorVersion b \<noteq> Some 0" if "validate os s q = (Inr b, t)" for q b t
    using validate_success [OF that] cache by auto
  show ?thesis
  proof (cases "locate os env exe")
    case None
    with call show ?thesis by (simp add: resolveAndValidate_unfold)
  next
    case (Some location)
    show ?thesis
    proof (cases "truthy ev")
      case True
      with call Some show ?thesis by (auto simp: resolveAndValidate_unfold)
    next
      case False
      show ?thesis
      proof (cases "looksLikeNode (basename os location)")
        case True
        with call Some False have "validate os s location = (Inr nb, s')"
          by (simp add: resolveAndValidate_unfold)
        then show ?thesis by (rule validated)
      next
        case shim: False
        with call Some False obtain r1 where c: "resolveCanonical os s env = Some (r1, s')"
          and r: "Inr nb = fallback location r1"
          by (auto simp: resolveAndValidate_unfold Option.bind_eq_Some_conv)
        show ?thesis
        proof (cases r1)
          case (Inl e)
          with r show ?thesis by (auto simp: fallback_def split: if_splits option.splits)
        next
          case (Inr realBinary)
          with r have nb: "majorVersion nb = majorVersion realBinary"
            by (simp add: fallback_def)
          from c Inr obtain q where "validate os s q = (Inr realBinary, s')"
            by (auto simp: resolveCanonical_def split: option.splits if_splits)
          from validated [OF this] nb show ?thesis by simp
        qed
      qed
    qed
  qed
qed

text \<open>
  A call returns unless it reaches the fallback (no truthy explicit version, a located path
  that fails the shape check) on a machine where \<open>''node''\<close> itself is found at a path
  that fails the shape check.
\<close>

lemma resolveAndValidate_returns_iff:
  "(\<exists>y. resolveAndValidate os s env exe ev = Some y) \<longleftrightarrow>
     \<not> (\<not> truthy ev \<and>
        (\<exists>location. locate os env exe = Some location \<and> \<not> looksLikeNode (basename os location)) \<and>
        (\<exists>location. locate os env ''node'' = Some location \<and> \<not> looksLikeNode (basename os location)))"
  by (cases "validate os s (the (locate os env ''node''))")
     (auto simp: resolveAndValidate_unfold resolveCanonical_def Option.bind_eq_Some_conv
        split: option.splits)

subsection \<open>The fallback after a failure\<close>

text \<open>
  What the fallback makes of a failed inner call: an error of the engine becomes
  \<^verbatim>\<open>TypeError\<close>, an out-of-date error is thrown again, any other
  \<^verbatim>\<open>ProtocolError\<close> becomes a descriptor with no version.
\<close>

lemma fallback_after_failure:
  assumes "locate os env exe = Some location" "\<not> truthy ev"
    "\<not> looksLikeNode (basename os location)"
    "resolveAndValidate os s env ''node'' None = Some (Inl e, s')"
  shows "resolveAndValidate os s env exe ev =
           Some (case cause_id e of
                   None \<Rightarrow> Inl TypeError
                 | Some i \<Rightarrow>
                     if i = NodeBinaryOutOfDate then Inl e
                     else Inr \<lparr>path = location, majorVersion = None\<rparr>, s')"
  by (simp add: resolve_fallback [OF assms(1-3)] assms(4) fallback_def)

text \<open>
  With no bound on the depth of calls no error of the engine arises: what a call throws
  is a \<^verbatim>\<open>ProtocolError\<close>.
\<close>

lemma validate_throws_protocol:
  assumes "validate os s location = (Inl e, s')"
  shows "cause_id e \<noteq> None"
  using assms
  by (auto simp: validate_def getVersionText_def Let_def split: option.splits if_splits)

lemma resolveAndValidate_throws_protocol:
  assumes call: "resolveAndValidate os s env exe ev = Some (Inl e, s')"
  shows "cause_id e \<noteq> None"
proof (cases "locate os env exe")
  case None
  with call show ?thesis by (auto simp: resolveAndValidate_unfold)
next
  case (Some location)
  show ?thesis
  proof (cases "truthy ev")
    case True
    with call Some show ?thesis by (simp add: resolveAndValidate_unfold)
  next
    case False
    show ?thesis
    proof (cases "looksLikeNode (basename os location)")
      case True
      with call Some False have "validate os s location = (Inl e, s')"
        by (simp add: resolveAndValidate_unfold)
      then show ?thesis by (rule validate_throws_protocol)
    next
      case shim: False
      with call Some False obtain r1 where c: "resolveCanonical os s env = Some (r1, s')"
        and r: "Inl e = fallback location r1"
        by (auto simp: resolveAndValidate_unfold Option.bind_eq_Some_conv)
      from c have inner: "\<And>e1. r1 = Inl e1 \<Longrightarrow> cause_id e1 \<noteq> None"
        by (auto simp: resolveCanonical_def split: option.splits if_splits
            dest: validate_throws_protocol)
      show ?thesis
      proof (cases r1)
        case (Inl e1)
        with inner have "cause_id e1 \<noteq> None" by simp
        with r Inl show ?thesis by (auto simp: fallback_def split: if_splits)
      next
        case (Inr nb)
        with r show ?thesis by (simp add: fallback_def)
      qed
    qed
  qed
qed

subsection \<open>The finite call stack\<close>

text \<open>
  A call that returns with no bound on the depth returns the same on any stack with room
  for one nested call.
\<close>

lemma within_canonical:
  assumes "resolveCanonical os s env = Some y"
  shows "resolveAndValidateWithin n os s env ''node'' None = y"
  using assms
  by (subst resolveAndValidateWithin.simps)
     (auto simp: resolveCanonical_def split: option.splits if_splits)

lemma within_agrees:
  assumes "resolveAndValidate os s env exe ev = Some y"
  shows "resolveAndValidateWithin (Suc n) os s env exe ev = y"
proof (cases "locate os env exe")
  case None
  with assms show ?thesis
    by (subst resolveAndValidateWithin.simps) (simp add: resolveAndValidate_unfold)
next
  case (Some location)
  show ?thesis
  proof (cases "truthy ev \<or> looksLikeNode (basename os location)")
    case True
    with assms Some show ?thesis
      by (subst resolveAndValidateWithin.simps) (auto simp: resolveAndValidate_unfold)
  next
    case False
    with assms Some obtain r1 s' where c: "resolveCanonical os s env = Some (r1, s')"
      and y: "y = (fallback location r1, s')"
      by (auto simp: resolveAndValidate_unfold Option.bind_eq_Some_conv)
    from within_canonical [OF c] have "resolveAndValidateWithin n os s env ''node'' None = (r1, s')" .
    with Some False y show ?thesis
      by (subst resolveAndValidateWithin.simps) simp
  qed
qed

text \<open>
  Where \<open>''node''\<close> is found at a path that fails the shape check, the calls nest until
  the stack is full; the \<^verbatim>\<open>RangeError\<close> of the last one becomes a
  \<^verbatim>\<open>TypeError\<close> in its \<^verbatim>\<open>catch\<close>, and so does that \<^verbatim>\<open>TypeError\<close> in
  every \<^verbatim>\<open>catch\<close> above it.
\<close>

lemma within_node_exhausts:
  assumes "locate os env ''node'' = Some q" "\<not> looksLikeNode (basename os q)"
  shows "resolveAndValidateWithin n os s env ''node'' None = (Inl TypeError, s)"
proof (induction n)
  case 0
  from assms show ?case
    by (subst resolveAndValidateWithin.simps) (simp add: fallback_def)
next
  case (Suc n)
  from assms Suc show ?case
    by (subst resolveAndValidateWithin.simps) (simp add: fallback_def)
qed

lemma within_shim_exhausts:
  assumes "locate os env exe = Some location" "\<not> truthy ev"
    "\<not> looksLikeNode (basename os location)"
    "locate os env ''node'' = Some q" "\<not> looksLikeNode (basename os q)"
  shows "resolveAndValidateWithin n os s env exe ev = (Inl TypeError, s)"
proof (cases n)
  case 0
  with assms(1-3) show ?thesis
    by (subst resolveAndValidateWithin.simps) (simp add: fallback_def)
next
  case (Suc m)
  with assms(1-3) within_node_exhausts [OF assms(4,5), of m s] show ?thesis
    by (subst resolveAndValidateWithin.simps) (simp add: fallback_def)
qed

subsection \<open>Facts about the concrete machines\<close>

lemma locate_absolute: "locate (posixHost onPath vs) env ''/usr/bin/node'' = Some ''/usr/bin/node''"
  by (simp add: locate_def posixHost_def posix_isAbsolute_def)

lemma locate_shim: "locate (posixHost shimPath vs) env ''nvm-node'' = Some ''/home/dev/.nvm/nvm-node''"
  by (simp add: locate_def posixHost_def posix_isAbsolute_def shimPath_def)

lemma locate_shim_node: "locate (posixHost shimPath vs) env ''node'' = Some ''/usr/bin/node''"
  by (simp add: locate_def posixHost_def posix_isAbsolute_def shimPath_def)

lemma locate_npm: "locate (posixHost npmOnlyPath vs) env ''npm'' = Some ''/usr/bin/npm''"
  by (simp add: locate_def posixHost_def posix_isAbsolute_def npmOnlyPath_def)

lemma locate_npm_node: "locate (posixHost npmOnlyPath vs) env ''node'' = None"
  by (simp add: locate_def posixHost_def posix_isAbsolute_def npmOnlyPath_def)

lemma shape_node: "looksLikeNode (basename (posixHost onPath vs) ''/usr/bin/node'')"
  by (simp add: posixHost_def posix_basename_def looksLikeNode_def)

lemma shape_shim: "\<not> looksLikeNode (basename (posixHost onPath vs) ''/home/dev/.nvm/nvm-node'')"
  by (simp add: posixHost_def posix_basename_def looksLikeNode_def)

lemma shape_npm: "\<not> looksLikeNode (basename (posixHost onPath vs) ''/usr/bin/npm'')"
  by (simp add: posixHost_def posix_basename_def looksLikeNode_def)

lemma spawn_node: "spawnAsync (posixHost onPath (nodeReports out)) ''/usr/bin/node'' [''--version''] = Some out"
  by (simp add: posixHost_def nodeReports_def)

lemma exec_examples:
  "exec_version ''v14.2.0\<newline>'' = Some ''14''"
  "exec_version ''v5.0.0\<newline>'' = Some ''5''"
  "exec_version ''v7.10.0'' = Some ''7''"
  "exec_version ''v8.0.0'' = Some ''8''"
  "exec_version ''v8'' = None"
  "exec_version '' v9.0.0'' = None"
  by (simp_all add: exec_version_def isDigit_def)

lemma Number_examples:
  "Number ''14'' = 14" "Number ''5'' = 5" "Number ''7'' = 7" "Number ''8'' = 8"
  by (simp_all add: Number_def)

lemma trim_examples:
  "trim ''v5.0.0\<newline>'' = ''v5.0.0''" "trim ''v7.10.0'' = ''v7.10.0''" "trim ''v8'' = ''v8''"
  "trim '' v9.0.0'' = ''v9.0.0''"
  by (simp_all add: trim_def isWhiteSpace_def)

lemma validate_example:
  "validate (posixHost onPath (nodeReports out)) newProvider ''/usr/bin/node'' =
     (case exec_version out of
        None \<Rightarrow> (Inl (nodeBinaryOutOfDate (trim out) ''/usr/bin/node''), afterProbe)
      | Some m \<Rightarrow>
          if Number m < 8 then (Inl (nodeBinaryOutOfDate (trim out) ''/usr/bin/node''), afterProbe)
          else (Inr \<lparr>path = ''/usr/bin/node'', majorVersion = Some (Number m)\<rparr>, cached (Number m)))"
  by (simp add: validate_def getVersionText_def spawn_node newProvider_def afterProbe_def cached_def
      Let_def split: option.split)

lemma resolve_node_example:
  "resolveAndValidate (posixHost shimPath (nodeReports out)) newProvider env ''node'' None =
     Some (validate (posixHost shimPath (nodeReports out)) newProvider ''/usr/bin/node'')"
  by (rule resolve_validate) (simp_all add: locate_shim_node shape_node)

lemma resolve_absolute_example:
  "resolveAndValidate (posixHost onPath (nodeReports out)) newProvider env ''/usr/bin/node'' None =
     Some (validate (posixHost onPath (nodeReports out)) newProvider ''/usr/bin/node'')"
  by (rule resolve_validate) (simp_all add: locate_absolute shape_node)

text \<open>
  A shim whose real \<^verbatim>\<open>node\<close> reports \<^verbatim>\<open>v5.0.0\<close> fails as out of date; a package
  manager on a machine with no \<^verbatim>\<open>node\<close> is accepted with no version.
\<close>

lemma fallback_examples:
  "resolveAndValidate (posixHost shimPath (nodeReports ''v5.0.0\<newline>'')) newProvider Map.empty
     ''nvm-node'' None =
   Some (Inl (nodeBinaryOutOfDate ''v5.0.0'' ''/usr/bin/node''), afterProbe) \<and>
   resolveAndValidate (posixHost npmOnlyPath Map.empty) newProvider Map.empty ''npm'' None =
   Some (Inr \<lparr>path = ''/usr/bin/npm'', majorVersion = None\<rparr>, newProvider)"
proof -
  let ?old = "posixHost shimPath (nodeReports ''v5.0.0\<newline>'')"
  let ?none = "posixHost npmOnlyPath Map.empty"
  have falsy: "\<not> truthy None" by simp
  have old: "resolveAndValidate ?old newProvider Map.empty ''node'' None =
      Some (Inl (nodeBinaryOutOfDate ''v5.0.0'' ''/usr/bin/node''), afterProbe)"
    by (simp add: resolve_node_example validate_example exec_examples Number_examples trim_examples)
  have none: "resolveAndValidate ?none newProvider Map.empty ''node'' None =
      Some (Inl (cannotFindNodeBinary ''node''), newProvider)"
    by (subst resolveAndValidate.simps) (simp add: locate_npm_node)
  from fallback_after_failure [OF locate_shim falsy shape_shim old]
       fallback_after_failure [OF locate_npm falsy shape_npm none]
  show ?thesis by simp
qed

section \<open>Properties of the provider\<close>

subsection \<open>The derived capability\<close>

text \<open>
  C5. For every descriptor whose \<^verbatim>\<open>majorVersion\<close> is absent or is not zero, the getter
  \<^verbatim>\<open>canUseSpacesInRequirePath\<close> is true exactly when \<^verbatim>\<open>majorVersion\<close> is absent or
  at least 12. The getter tests \<^verbatim>\<open>this.majorVersion\<close> for truthiness, and \<open>0\<close> is
  falsy: a descriptor with major version \<open>0\<close> is outside this statement.
\<close>

theorem canUseSpaces_nonzero:
  "majorVersion b \<noteq> Some 0 \<Longrightarrow> canUseSpacesInRequirePath b = supportsSpacesInRequirePath b"
  by (cases "majorVersion b")
     (simp_all add: canUseSpacesInRequirePath_def supportsSpacesInRequirePath_def)

text \<open>Major version 11 reports false, 12 reports true, an undefined one reports true.\<close>

theorem canUseSpaces_boundary_witness:
  "\<not> canUseSpacesInRequirePath \<lparr>path = ''/usr/bin/node'', majorVersion = Some 11\<rparr> \<and>
   canUseSpacesInRequirePath \<lparr>path = ''/usr/bin/node'', majorVersion = Some 12\<rparr> \<and>
   canUseSpacesInRequirePath \<lparr>path = ''/usr/bin/node'', majorVersion = None\<rparr>"
  using canUseSpaces_nonzero [of "\<lparr>path = ''/usr/bin/node'', majorVersion = Some 11\<rparr>"]
        canUseSpaces_nonzero [of "\<lparr>path = ''/usr/bin/node'', majorVersion = Some 12\<rparr>"]
        canUseSpaces_nonzero [of "\<lparr>path = ''/usr/bin/node'', majorVersion = None\<rparr>"]
  by (simp add: supportsSpacesInRequirePath_def)

text \<open>
  At major version \<open>0\<close> the getter answers true, where ``absent or at least 12'' is false.
\<close>

theorem majorVersion_zero_counterexample:
  "canUseSpacesInRequirePath \<lparr>path = ''/usr/bin/node'', majorVersion = Some 0\<rparr> \<noteq>
   supportsSpacesInRequirePath \<lparr>path = ''/usr/bin/node'', majorVersion = Some 0\<rparr>"
  by (simp add: canUseSpacesInRequirePath_def supportsSpacesInRequirePath_def)

subsection \<open>The version-text probe\<close>

text \<open>
  C9. For every path, \<^verbatim>\<open>getVersionText\<close> fails with
  \<^verbatim>\<open>cannotFindNodeBinary\<close> of that path whenever the subprocess invocation fails, and
  otherwise returns the captured standard output as it is, neither parsed nor trimmed.
\<close>

theorem getVersionText_outcome:
  "(spawnAsync os binary [''--version''] = None \<longrightarrow>
      fst (getVersionText os s binary) = Inl (cannotFindNodeBinary binary)) \<and>
   (\<forall>out. spawnAsync os binary [''--version''] = Some out \<longrightarrow>
      fst (getVersionText os s binary) = Inr out)"
  by (simp add: getVersionText_def Let_def)

text \<open>The output keeps its trailing line feed; a binary that cannot be spawned is not found.\<close>

theorem getVersionText_examples_witness:
  "fst (getVersionText (posixHost shimPath (nodeReports ''v14.2.0\<newline>'')) newProvider ''/usr/bin/node'')
     = Inr ''v14.2.0\<newline>'' \<and>
   fst (getVersionText (posixHost shimPath (nodeReports ''v14.2.0\<newline>'')) newProvider ''/usr/bin/npm'')
     = Inl (cannotFindNodeBinary ''/usr/bin/npm'')"
proof -
  let ?os = "posixHost shimPath (nodeReports ''v14.2.0\<newline>'')"
  have gone: "spawnAsync ?os ''/usr/bin/npm'' [''--version''] = None"
    by (simp add: posixHost_def nodeReports_def)
  have runs: "spawnAsync ?os ''/usr/bin/node'' [''--version''] = Some ''v14.2.0\<newline>''"
    by (rule spawn_node)
  from getVersionText_outcome [of ?os "''/usr/bin/npm''" newProvider] gone
       getVersionText_outcome [of ?os "''/usr/bin/node''" newProvider] runs
  show ?thesis by blast
qed

subsection \<open>The explicit version\<close>

text \<open>
  C2. For every machine, environment, executable name and truthy (defined and non-zero)
  \<^verbatim>\<open>explicitVersion\<close>, once a location is found \<^verbatim>\<open>resolveAndValidate\<close> returns
  the descriptor of that location with that version at once: the result does not depend on
  the base name of the location, on the cache or on what spawning would do, and the provider
  (its cache and its record of spawned processes) is as it was.
\<close>

theorem explicit_version_shortcut:
  assumes "locate os env exe = Some location" "truthy ev"
  shows "resolveAndValidate os s env exe ev =
           Some (Inr \<lparr>path = location, majorVersion = ev\<rparr>, s)"
  using assms by (subst resolveAndValidate.simps) simp

text \<open>Explicit version 6 for a shim, on a machine where nothing can be spawned.\<close>

theorem explicit_six_witness:
  "resolveAndValidate (posixHost shimPath Map.empty) newProvider Map.empty ''nvm-node'' (Some 6) =
     Some (Inr \<lparr>path = ''/home/dev/.nvm/nvm-node'', majorVersion = Some 6\<rparr>, newProvider)"
proof -
  have six: "truthy (Some 6)" by simp
  from explicit_version_shortcut [OF locate_shim six] show ?thesis .
qed

text \<open>
  An explicit version \<open>0\<close> is falsy, so \<^verbatim>\<open>if (explicitVersion)\<close> is not taken: the
  binary is probed, the probed version 14 is returned and stored.
\<close>

theorem explicit_zero_counterexample:
  "locate (posixHost shimPath (nodeReports ''v14.2.0\<newline>'')) Map.empty ''/usr/bin/node''
     = Some ''/usr/bin/node'' \<and>
   resolveAndValidate (posixHost shimPath (nodeReports ''v14.2.0\<newline>'')) newProvider Map.empty
     ''/usr/bin/node'' (Some 0)
     = Some (Inr \<lparr>path = ''/usr/bin/node'', majorVersion = Some 14\<rparr>, cached 14) \<and>
   resolveAndValidate (posixHost shimPath (nodeReports ''v14.2.0\<newline>'')) newProvider Map.empty
     ''/usr/bin/node'' (Some 0)
     \<noteq> Some (Inr \<lparr>path = ''/usr/bin/node'', majorVersion = Some 0\<rparr>, newProvider)"
proof -
  let ?os = "posixHost shimPath (nodeReports ''v14.2.0\<newline>'')"
  have "resolveAndValidate ?os newProvider Map.empty ''/usr/bin/node'' (Some 0) =
      Some (validate ?os newProvider ''/usr/bin/node'')"
    by (rule resolve_validate) (simp_all add: locate_absolute shape_node)
  then show ?thesis
    by (simp add: locate_absolute validate_example exec_examples Number_examples)
qed

subsection \<open>The shape-mismatch fallback\<close>

text \<open>
  C6. When the base name of the located path fails the shape check and the recursive call
  for \<open>''node''\<close> succeeds, the outer call returns the located path with the
  \<^verbatim>\<open>majorVersion\<close> the recursive call found (and the provider the inner call left).
\<close>

theorem fallback_inner_success:
  assumes "locate os env exe = Some location" "\<not> truthy ev"
    "\<not> looksLikeNode (basename os location)"
    "resolveAndValidate os s env ''node'' None = Some (Inr realBinary, s')"
  shows "resolveAndValidate os s env exe ev =
           Some (Inr \<lparr>path = location, majorVersion = majorVersion realBinary\<rparr>, s')"
  by (simp add: resolve_fallback [OF assms(1-3)] assms(4) fallback_def)

text \<open>The shim \<^verbatim>\<open>nvm-node\<close>, with a real \<^verbatim>\<open>node\<close> that reports \<^verbatim>\<open>v14.2.0\<close>.\<close>

theorem shim_fourteen_witness:
  "resolveAndValidate (posixHost shimPath (nodeReports ''v14.2.0\<newline>'')) newProvider Map.empty
     ''nvm-node'' None =
   Some (Inr \<lparr>path = ''/home/dev/.nvm/nvm-node'', majorVersion = Some 14\<rparr>, cached 14)"
proof -
  let ?os = "posixHost shimPath (nodeReports ''v14.2.0\<newline>'')"
  have inner: "resolveAndValidate ?os newProvider Map.empty ''node'' None =
      Some (Inr \<lparr>path = ''/usr/bin/node'', majorVersion = Some 14\<rparr>, cached 14)"
    by (simp add: resolve_node_example validate_example exec_examples Number_examples)
  have falsy: "\<not> truthy None" by simp
  from fallback_inner_success [OF locate_shim falsy shape_shim inner]
  show ?thesis by simp
qed

text \<open>
  C1. On a Windows machine where the search for \<^verbatim>\<open>npm\<close> finds the command
  script \<^verbatim>\<open>npm.cmd\<close> and the search for \<^verbatim>\<open>node\<close> finds the command script
  \<^verbatim>\<open>node.cmd\<close>, whatever the bound on the call stack: the inner call for
  \<open>''node''\<close> fails with \<^verbatim>\<open>TypeError\<close>, an error that is not out of date, and
  the outer call for \<open>''npm''\<close> fails with \<^verbatim>\<open>TypeError\<close> too, where it was to
  return the located path with an undefined \<^verbatim>\<open>majorVersion\<close>. The error that the
  \<^verbatim>\<open>catch\<close> receives has no \<^verbatim>\<open>cause\<close>, and the \<^verbatim>\<open>catch\<close> reads
  \<^verbatim>\<open>cause.id\<close> of it.
\<close>

theorem shim_beside_cmd_throws_TypeError:
  "resolveAndValidateWithin n (win32Host npmCmdPath versions) s env ''node'' None
     = (Inl TypeError, s) \<and>
   cause_id TypeError \<noteq> Some NodeBinaryOutOfDate \<and>
   locate (win32Host npmCmdPath versions) env ''npm'' = Some npmCmd \<and>
   resolveAndValidateWithin (Suc n) (win32Host npmCmdPath versions) s env ''npm'' None
     = (Inl TypeError, s) \<and>
   resolveAndValidateWithin (Suc n) (win32Host npmCmdPath versions) s env ''npm'' None
     \<noteq> (Inr \<lparr>path = npmCmd, majorVersion = None\<rparr>, s)"
proof -
  let ?os = "win32Host npmCmdPath versions"
  have node: "locate ?os env ''node'' = Some nodeCmd"
    by (simp add: locate_def win32Host_def npmCmdPath_def win32_isAbsolute_def
        isPathSeparator_def isWindowsDeviceRoot_def nodeCmd_def backslash_def)
  have npm: "locate ?os env ''npm'' = Some npmCmd"
    by (simp add: locate_def win32Host_def npmCmdPath_def win32_isAbsolute_def
        isPathSeparator_def isWindowsDeviceRoot_def npmCmd_def backslash_def)
  have node_shape: "\<not> looksLikeNode (basename ?os nodeCmd)"
    by (simp add: win32Host_def win32_basename_def nodeCmd_def isPathSeparator_def
        isWindowsDeviceRoot_def backslash_def looksLikeNode_def)
  have npm_shape: "\<not> looksLikeNode (basename ?os npmCmd)"
    by (simp add: win32Host_def win32_basename_def npmCmd_def isPathSeparator_def
        isWindowsDeviceRoot_def backslash_def looksLikeNode_def)
  have falsy: "\<not> truthy None" by simp
  have inner: "resolveAndValidateWithin n ?os s env ''node'' None = (Inl TypeError, s)"
    by (rule within_node_exhausts [OF node node_shape])
  have outer: "resolveAndValidateWithin (Suc n) ?os s env ''npm'' None = (Inl TypeError, s)"
    by (rule within_shim_exhausts [OF npm falsy npm_shape node node_shape])
  from inner outer npm show ?thesis by simp
qed

subsection \<open>The version gate\<close>

text \<open>
  C3. When a call reaches the probe (a location found, no truthy explicit version, the shape
  check passed, nothing cached for the location) and the probe prints \<open>version\<close>, the call
  returns, and it fails with \<^verbatim>\<open>nodeBinaryOutOfDate\<close> of the trimmed text and the
  location exactly when the untrimmed text has no leading \<^verbatim>\<open>v<digits>.\<close> or the number
  the digits denote is less than 8; otherwise it succeeds with that number as
  \<^verbatim>\<open>majorVersion\<close>.
\<close>

theorem version_gate:
  assumes "locate os env exe = Some location" "\<not> truthy ev"
    "looksLikeNode (basename os location)"
    "knownGoodMappings s location = None"
    "spawnAsync os location [''--version''] = Some version"
  shows "\<exists>r s'. resolveAndValidate os s env exe ev = Some (r, s') \<and>
           (r = Inl (nodeBinaryOutOfDate (trim version) location)
              \<longleftrightarrow> (\<forall>ds. leadingVersionPattern version ds \<longrightarrow> Number ds < 8)) \<and>
           (\<forall>ds. leadingVersionPattern version ds \<and> 8 \<le> Number ds
              \<longrightarrow> r = Inr \<lparr>path = location, majorVersion = Some (Number ds)\<rparr>)"
proof (cases "exec_version version")
  case None
  then have no: "\<And>ds. \<not> leadingVersionPattern version ds"
    using pattern_exec by fastforce
  show ?thesis
    by (simp add: resolve_validate [OF assms(1-3)] validate_def getVersionText_def assms(4,5) None no)
next
  case (Some m)
  have "\<And>ds. leadingVersionPattern version ds \<longleftrightarrow> exec_version version = Some ds"
    by (simp add: exec_version_iff)
  with Some have only: "\<And>ds. leadingVersionPattern version ds \<longleftrightarrow> ds = m"
    by auto
  show ?thesis
    by (simp add: resolve_validate [OF assms(1-3)] validate_def getVersionText_def assms(4,5)
        Some only Let_def)
qed

text \<open>
  \<^verbatim>\<open>v7.10.0\<close> fails, \<^verbatim>\<open>v8.0.0\<close> succeeds with major version 8, \<^verbatim>\<open>v8\<close> fails;
  and a text with a leading space fails, the error carrying it trimmed.
\<close>

theorem version_boundary_witness:
  "(\<exists>s'. resolveAndValidate (posixHost shimPath (nodeReports ''v7.10.0'')) newProvider Map.empty
           ''node'' None = Some (Inl (nodeBinaryOutOfDate ''v7.10.0'' ''/usr/bin/node''), s')) \<and>
   (\<exists>s'. resolveAndValidate (posixHost shimPath (nodeReports ''v8.0.0'')) newProvider Map.empty
           ''node'' None = Some (Inr \<lparr>path = ''/usr/bin/node'', majorVersion = Some 8\<rparr>, s')) \<and>
   (\<exists>s'. resolveAndValidate (posixHost shimPath (nodeReports ''v8'')) newProvider Map.empty
           ''node'' None = Some (Inl (nodeBinaryOutOfDate ''v8'' ''/usr/bin/node''), s')) \<and>
   (\<exists>s'. resolveAndValidate (posixHost shimPath (nodeReports '' v9.0.0'')) newProvider Map.empty
           ''node'' None = Some (Inl (nodeBinaryOutOfDate ''v9.0.0'' ''/usr/bin/node''), s'))"
proof -
  have falsy: "\<not> truthy None" by simp
  have miss: "knownGoodMappings newProvider ''/usr/bin/node'' = None"
    by (simp add: newProvider_def)
  have gate: "\<exists>r s'. resolveAndValidate (posixHost shimPath (nodeReports v)) newProvider Map.empty
           ''node'' None = Some (r, s') \<and>
           (r = Inl (nodeBinaryOutOfDate (trim v) ''/usr/bin/node'')
              \<longleftrightarrow> (\<forall>ds. leadingVersionPattern v ds \<longrightarrow> Number ds < 8)) \<and>
           (\<forall>ds. leadingVersionPattern v ds \<and> 8 \<le> Number ds
              \<longrightarrow> r = Inr \<lparr>path = ''/usr/bin/node'', majorVersion = Some (Number ds)\<rparr>)" for v
    by (rule version_gate [OF locate_shim_node falsy shape_node miss spawn_node])
  have p7: "\<And>ds. leadingVersionPattern ''v7.10.0'' ds \<longleftrightarrow> ds = ''7''"
    and p8: "\<And>ds. leadingVersionPattern ''v8.0.0'' ds \<longleftrightarrow> ds = ''8''"
    and p: "\<And>ds. \<not> leadingVersionPattern ''v8'' ds"
    and p9: "\<And>ds. \<not> leadingVersionPattern '' v9.0.0'' ds"
    by (auto simp: exec_version_iff [symmetric] exec_examples)
  from gate [of "''v7.10.0''"]
  have one: "\<exists>s'. resolveAndValidate (posixHost shimPath (nodeReports ''v7.10.0'')) newProvider
           Map.empty ''node'' None = Some (Inl (nodeBinaryOutOfDate ''v7.10.0'' ''/usr/bin/node''), s')"
    by (auto simp: p7 Number_examples trim_examples)
  from gate [of "''v8.0.0''"]
  have two: "\<exists>s'. resolveAndValidate (posixHost shimPath (nodeReports ''v8.0.0'')) newProvider
           Map.empty ''node'' None = Some (Inr \<lparr>path = ''/usr/bin/node'', majorVersion = Some 8\<rparr>, s')"
    by (auto simp: p8 Number_examples trim_examples)
  from gate [of "''v8''"]
  have three: "\<exists>s'. resolveAndValidate (posixHost shimPath (nodeReports ''v8'')) newProvider
           Map.empty ''node'' None = Some (Inl (nodeBinaryOutOfDate ''v8'' ''/usr/bin/node''), s')"
    by (auto simp: p trim_examples)
  from gate [of "'' v9.0.0''"]
  have four: "\<exists>s'. resolveAndValidate (posixHost shimPath (nodeReports '' v9.0.0'')) newProvider
           Map.empty ''node'' None = Some (Inl (nodeBinaryOutOfDate ''v9.0.0'' ''/usr/bin/node''), s')"
    by (auto simp: p9 trim_examples)
  from one two three four show ?thesis by blast
qed

subsection \<open>The cache\<close>

text \<open>
  C7. After a successful resolution of an absolute path that passes the shape check (no
  truthy explicit version), a second such resolution of the same path returns the same
  descriptor and leaves the provider as it was: it is served from the cache and spawns
  nothing, whatever the machine has become.
\<close>

theorem second_resolution_from_cache:
  assumes "exe \<noteq> []" "isAbsolute os exe" "looksLikeNode (basename os exe)" "\<not> truthy ev"
    and first: "resolveAndValidate os s env exe ev = Some (Inr nb, s')"
    and "isAbsolute os' exe" "looksLikeNode (basename os' exe)" "\<not> truthy ev'"
  shows "resolveAndValidate os' s' env' exe ev' = Some (Inr nb, s')"
proof -
  have loc: "locate os env exe = Some exe" and loc': "locate os' env' exe = Some exe"
    using assms by (simp_all add: locate_def)
  from first loc assms(3,4) have "validate os s exe = (Inr nb, s')"
    by (simp add: resolve_validate)
  from validate_success [OF this] have "knownGoodMappings s' exe = Some nb"
    by auto
  then have "validate os' s' exe = (Inr nb, s')" by (rule validate_known)
  with loc' assms(7,8) show ?thesis by (simp add: resolve_validate)
qed

text \<open>
  The second call is made on a machine where nothing is on the search path and nothing can
  be spawned.
\<close>

theorem repeat_resolution_witness:
  "resolveAndValidate (posixHost shimPath (nodeReports ''v14.2.0\<newline>'')) newProvider Map.empty
     ''/usr/bin/node'' None =
     Some (Inr \<lparr>path = ''/usr/bin/node'', majorVersion = Some 14\<rparr>, cached 14) \<and>
   resolveAndValidate (posixHost Map.empty Map.empty) (cached 14) Map.empty ''/usr/bin/node'' None =
     Some (Inr \<lparr>path = ''/usr/bin/node'', majorVersion = Some 14\<rparr>, cached 14)"
proof -
  let ?os = "posixHost shimPath (nodeReports ''v14.2.0\<newline>'')"
  let ?gone = "posixHost Map.empty Map.empty"
  have first: "resolveAndValidate ?os newProvider Map.empty ''/usr/bin/node'' None =
     Some (Inr \<lparr>path = ''/usr/bin/node'', majorVersion = Some 14\<rparr>, cached 14)"
    by (simp add: resolve_absolute_example validate_example exec_examples Number_examples)
  have falsy: "\<not> truthy None" by simp
  have name: "''/usr/bin/node'' \<noteq> []" by simp
  have abs: "isAbsolute ?os ''/usr/bin/node''" "isAbsolute ?gone ''/usr/bin/node''"
    by (simp_all add: posixHost_def posix_isAbsolute_def)
  from second_resolution_from_cache
         [OF name abs(1) shape_node falsy first abs(2) shape_node falsy] first
  show ?thesis by simp
qed

text \<open>
  C4. A call that fails leaves the cache as it was. So when the call validated the path
  \<open>p\<close> itself (\<open>p\<close> located, shape check passed, no truthy explicit version) and failed, a
  later call that validates \<open>p\<close> returns after spawning the probe of \<open>p\<close> once more; if
  the probe then prints a version that passes the gate, that call succeeds with the new major
  version.
\<close>

theorem failure_not_cached:
  assumes first: "resolveAndValidate os s env exe ev = Some (Inl e, s')"
  shows "knownGoodMappings s' = knownGoodMappings s \<and>
         (\<forall>p os' env' exe' ev'.
            (locate os env exe = Some p \<and> \<not> truthy ev \<and> looksLikeNode (basename os p)) \<and>
            locate os' env' exe' = Some p \<and> \<not> truthy ev' \<and> looksLikeNode (basename os' p)
            \<longrightarrow> (\<exists>r2 s2. resolveAndValidate os' s' env' exe' ev' = Some (r2, s2) \<and>
                   spawned s2 = spawned s' @ [(p, [''--version''])] \<and>
                   (\<forall>version ds. spawnAsync os' p [''--version''] = Some version \<and>
                        leadingVersionPattern version ds \<and> 8 \<le> Number ds
                      \<longrightarrow> r2 = Inr \<lparr>path = p, majorVersion = Some (Number ds)\<rparr> \<and>
                          knownGoodMappings s2 p =
                            Some \<lparr>path = p, majorVersion = Some (Number ds)\<rparr>)))"
proof (intro conjI allI impI)
  show same: "knownGoodMappings s' = knownGoodMappings s"
    using first by (rule failure_keeps_cache)
  fix p os' env' exe' ev'
  assume h: "(locate os env exe = Some p \<and> \<not> truthy ev \<and> looksLikeNode (basename os p)) \<and>
            locate os' env' exe' = Some p \<and> \<not> truthy ev' \<and> looksLikeNode (basename os' p)"
  with first have "validate os s p = (Inl e, s')"
    by (simp add: resolve_validate)
  then have "knownGoodMappings s p = None" by (simp add: validate_failure)
  with same have miss: "knownGoodMappings s' p = None" by simp
  obtain r2 s2 where v: "validate os' s' p = (r2, s2)"
    by (cases "validate os' s' p")
  from h have call: "resolveAndValidate os' s' env' exe' ev' = Some (validate os' s' p)"
    by (simp add: resolve_validate)
  have again: "spawned s2 = spawned s' @ [(p, [''--version''])]"
    using validate_miss_spawns [OF miss, of os'] v by simp
  have passes: "\<forall>version ds. spawnAsync os' p [''--version''] = Some version \<and>
                        leadingVersionPattern version ds \<and> 8 \<le> Number ds
                      \<longrightarrow> r2 = Inr \<lparr>path = p, majorVersion = Some (Number ds)\<rparr> \<and>
                          knownGoodMappings s2 p =
                            Some \<lparr>path = p, majorVersion = Some (Number ds)\<rparr>"
  proof (intro allI impI)
    fix version ds
    assume that: "spawnAsync os' p [''--version''] = Some version \<and>
        leadingVersionPattern version ds \<and> 8 \<le> Number ds"
    then have "exec_version version = Some ds" by (simp add: exec_version_iff)
    from validate_probe_ok [OF miss _ this, of os'] that v
    show "r2 = Inr \<lparr>path = p, majorVersion = Some (Number ds)\<rparr> \<and>
          knownGoodMappings s2 p = Some \<lparr>path = p, majorVersion = Some (Number ds)\<rparr>"
      by simp
  qed
  from call v have "resolveAndValidate os' s' env' exe' ev' = Some (r2, s2)"
    by simp
  with again passes
  show "\<exists>r2 s2. resolveAndValidate os' s' env' exe' ev' = Some (r2, s2) \<and>
                   spawned s2 = spawned s' @ [(p, [''--version''])] \<and>
                   (\<forall>version ds. spawnAsync os' p [''--version''] = Some version \<and>
                        leadingVersionPattern version ds \<and> 8 \<le> Number ds
                      \<longrightarrow> r2 = Inr \<lparr>path = p, majorVersion = Some (Number ds)\<rparr> \<and>
                          knownGoodMappings s2 p =
                            Some \<lparr>path = p, majorVersion = Some (Number ds)\<rparr>)"
    by blast
qed

text \<open>
  \<^verbatim>\<open>/usr/bin/node\<close> reports \<^verbatim>\<open>v7.10.0\<close> and is rejected; it is then upgraded in
  place to \<^verbatim>\<open>v8.0.0\<close>, and the next call probes it a second time and accepts it.
\<close>

theorem upgrade_in_place_witness:
  "resolveAndValidate (posixHost shimPath (nodeReports ''v7.10.0'')) newProvider Map.empty
     ''/usr/bin/node'' None =
     Some (Inl (nodeBinaryOutOfDate ''v7.10.0'' ''/usr/bin/node''), afterProbe) \<and>
   knownGoodMappings afterProbe = knownGoodMappings newProvider \<and>
   (\<exists>s2. resolveAndValidate (posixHost shimPath (nodeReports ''v8.0.0'')) afterProbe Map.empty
            ''/usr/bin/node'' None =
            Some (Inr \<lparr>path = ''/usr/bin/node'', majorVersion = Some 8\<rparr>, s2) \<and>
          spawned s2 = [(''/usr/bin/node'', [''--version'']), (''/usr/bin/node'', [''--version''])] \<and>
          knownGoodMappings s2 ''/usr/bin/node'' =
            Some \<lparr>path = ''/usr/bin/node'', majorVersion = Some 8\<rparr>)"
proof -
  let ?old = "posixHost shimPath (nodeReports ''v7.10.0'')"
  let ?new = "posixHost shimPath (nodeReports ''v8.0.0'')"
  have first: "resolveAndValidate ?old newProvider Map.empty ''/usr/bin/node'' None =
     Some (Inl (nodeBinaryOutOfDate ''v7.10.0'' ''/usr/bin/node''), afterProbe)"
    by (simp add: resolve_absolute_example validate_example exec_examples Number_examples
        trim_examples)
  have pat: "leadingVersionPattern ''v8.0.0'' ''8''"
    by (simp add: exec_version_iff [symmetric] exec_examples)
  have both: "(locate ?old Map.empty ''/usr/bin/node'' = Some ''/usr/bin/node'' \<and> \<not> truthy None \<and>
       looksLikeNode (basename ?old ''/usr/bin/node'')) \<and>
      locate ?new Map.empty ''/usr/bin/node'' = Some ''/usr/bin/node'' \<and> \<not> truthy None \<and>
      looksLikeNode (basename ?new ''/usr/bin/node'')"
    by (simp add: locate_absolute shape_node)
  have passes: "spawnAsync ?new ''/usr/bin/node'' [''--version''] = Some ''v8.0.0'' \<and>
      leadingVersionPattern ''v8.0.0'' ''8'' \<and> 8 \<le> Number ''8''"
    by (simp add: spawn_node pat Number_examples)
  from failure_not_cached [OF first]
  have same: "knownGoodMappings afterProbe = knownGoodMappings newProvider"
    by blast
  from failure_not_cached [OF first] both
  obtain r2 s2 where call: "resolveAndValidate ?new afterProbe Map.empty ''/usr/bin/node'' None =
        Some (r2, s2)"
    and again: "spawned s2 = spawned afterProbe @ [(''/usr/bin/node'', [''--version''])]"
    and gate: "\<forall>version ds. spawnAsync ?new ''/usr/bin/node'' [''--version''] = Some version \<and>
                  leadingVersionPattern version ds \<and> 8 \<le> Number ds
                \<longrightarrow> r2 = Inr \<lparr>path = ''/usr/bin/node'', majorVersion = Some (Number ds)\<rparr> \<and>
                    knownGoodMappings s2 ''/usr/bin/node'' =
                      Some \<lparr>path = ''/usr/bin/node'', majorVersion = Some (Number ds)\<rparr>"
    by blast
  from gate passes
  have "r2 = Inr \<lparr>path = ''/usr/bin/node'', majorVersion = Some (Number ''8'')\<rparr> \<and>
        knownGoodMappings s2 ''/usr/bin/node'' =
          Some \<lparr>path = ''/usr/bin/node'', majorVersion = Some (Number ''8'')\<rparr>"
    by blast
  with call again
  have "resolveAndValidate ?new afterProbe Map.empty ''/usr/bin/node'' None =
            Some (Inr \<lparr>path = ''/usr/bin/node'', majorVersion = Some 8\<rparr>, s2) \<and>
          spawned s2 = [(''/usr/bin/node'', [''--version'']), (''/usr/bin/node'', [''--version''])] \<and>
          knownGoodMappings s2 ''/usr/bin/node'' =
            Some \<lparr>path = ''/usr/bin/node'', majorVersion = Some 8\<rparr>"
    by (simp add: Number_examples afterProbe_def)
  with first same show ?thesis by blast
qed

text \<open>
  C10. Whatever a call that returns does to the cache, it is at most one insertion, under a
  key that passes the shape check and had no entry, of the descriptor made from a successful
  probe of that key: the key as path, and as \<^verbatim>\<open>majorVersion\<close> the number, at least 8,
  that the probe's output starts with. Hence if every cached descriptor has a defined
  \<^verbatim>\<open>majorVersion\<close> of at least 8 before the call, so it is after. A call with a truthy
  explicit version leaves the provider as it was, and a call whose located path fails the
  shape check leaves the cache at that path as it was: neither inserts what it returns.
\<close>

theorem cache_holds_probed_only:
  assumes "resolveAndValidate os s env exe ev = Some (r, s')"
  shows "(knownGoodMappings s' = knownGoodMappings s \<or>
          (\<exists>q version ds. looksLikeNode (basename os q) \<and> knownGoodMappings s q = None \<and>
             spawnAsync os q [''--version''] = Some version \<and>
             leadingVersionPattern version ds \<and> 8 \<le> Number ds \<and>
             knownGoodMappings s' =
               (knownGoodMappings s)(q \<mapsto> \<lparr>path = q, majorVersion = Some (Number ds)\<rparr>))) \<and>
         ((\<forall>p nb. knownGoodMappings s p = Some nb \<longrightarrow> (\<exists>n. majorVersion nb = Some n \<and> 8 \<le> n)) \<longrightarrow>
          (\<forall>p nb. knownGoodMappings s' p = Some nb \<longrightarrow> (\<exists>n. majorVersion nb = Some n \<and> 8 \<le> n))) \<and>
         (truthy ev \<longrightarrow> s' = s) \<and>
         (\<forall>location. locate os env exe = Some location \<and> \<not> looksLikeNode (basename os location)
            \<longrightarrow> knownGoodMappings s' location = knownGoodMappings s location)"
proof (intro conjI)
  show "knownGoodMappings s' = knownGoodMappings s \<or>
          (\<exists>q version ds. looksLikeNode (basename os q) \<and> knownGoodMappings s q = None \<and>
             spawnAsync os q [''--version''] = Some version \<and>
             leadingVersionPattern version ds \<and> 8 \<le> Number ds \<and>
             knownGoodMappings s' =
               (knownGoodMappings s)(q \<mapsto> \<lparr>path = q, majorVersion = Some (Number ds)\<rparr>))"
    using cache_step [OF assms] by (simp add: exec_version_iff)
  show "(\<forall>p nb. knownGoodMappings s p = Some nb \<longrightarrow> (\<exists>n. majorVersion nb = Some n \<and> 8 \<le> n)) \<longrightarrow>
          (\<forall>p nb. knownGoodMappings s' p = Some nb \<longrightarrow> (\<exists>n. majorVersion nb = Some n \<and> 8 \<le> n))"
    using cache_step [OF assms] by (auto split: if_splits)
  show "truthy ev \<longrightarrow> s' = s"
    using assms by (auto simp: resolveAndValidate_unfold split: option.splits)
  show "\<forall>location. locate os env exe = Some location \<and> \<not> looksLikeNode (basename os location)
            \<longrightarrow> knownGoodMappings s' location = knownGoodMappings s location"
    using cache_step [OF assms] by auto
qed

text \<open>
  Resolving the shim \<^verbatim>\<open>nvm-node\<close> stores the real binary's descriptor and nothing under
  the shim's own path.
\<close>

theorem shim_not_cached_witness:
  "resolveAndValidate (posixHost shimPath (nodeReports ''v14.2.0\<newline>'')) newProvider Map.empty
     ''nvm-node'' None =
     Some (Inr \<lparr>path = ''/home/dev/.nvm/nvm-node'', majorVersion = Some 14\<rparr>, cached 14) \<and>
   knownGoodMappings (cached 14) ''/home/dev/.nvm/nvm-node'' = None"
proof -
  let ?os = "posixHost shimPath (nodeReports ''v14.2.0\<newline>'')"
  have "resolveAndValidate ?os newProvider Map.empty ''node'' None =
      Some (Inr \<lparr>path = ''/usr/bin/node'', majorVersion = Some 14\<rparr>, cached 14)"
    by (simp add: resolve_node_example validate_example exec_examples Number_examples)
  then have call: "resolveAndValidate ?os newProvider Map.empty ''nvm-node'' None =
     Some (Inr \<lparr>path = ''/home/dev/.nvm/nvm-node'', majorVersion = Some 14\<rparr>, cached 14)"
    by (simp add: resolve_fallback [OF locate_shim _ shape_shim] fallback_def)
  from cache_holds_probed_only [OF call]
  have "locate ?os Map.empty ''nvm-node'' = Some ''/home/dev/.nvm/nvm-node'' \<and>
        \<not> looksLikeNode (basename ?os ''/home/dev/.nvm/nvm-node'')
        \<longrightarrow> knownGoodMappings (cached 14) ''/home/dev/.nvm/nvm-node'' =
             knownGoodMappings newProvider ''/home/dev/.nvm/nvm-node''"
    by blast
  with call show ?thesis
    by (simp add: locate_shim shape_shim newProvider_def)
qed

subsection \<open>The depth of the recursion\<close>

text \<open>
  C8. On a Windows machine where the search for \<^verbatim>\<open>node\<close> finds the command script
  \<^verbatim>\<open>node.cmd\<close> in the directory \<^verbatim>\<open>nodejs\<close> of drive \<^verbatim>\<open>C:\<close>, the call \<^verbatim>\<open>resolveAndValidate(env, 'node')\<close> never
  returns, whatever the provider, the environment and the outcome of spawning: the base name
  \<^verbatim>\<open>node.cmd\<close> fails the shape check, so the call makes the same call again, without
  end. The depth of the recursion is not bounded by 1 there.
\<close>

theorem canonical_cmd_never_returns:
  "resolveAndValidate (win32Host cmdPath versions) s env ''node'' None = None"
proof (rule node_not_returning)
  show "locate (win32Host cmdPath versions) env ''node'' = Some nodeCmd"
    by (simp add: locate_def win32Host_def cmdPath_def win32_isAbsolute_def isPathSeparator_def
        isWindowsDeviceRoot_def nodeCmd_def backslash_def)
  show "\<not> looksLikeNode (basename (win32Host cmdPath versions) nodeCmd)"
    by (simp add: win32Host_def win32_basename_def nodeCmd_def isPathSeparator_def
        isWindowsDeviceRoot_def backslash_def looksLikeNode_def)
qed

end
